theory Spec2Isabelle
  imports Complex_Main "HOL-Library.Word" "HOL-Library.Log_Nat"
begin

section \<open>The forwarder contract\<close>

text \<open>
  Solidity value types of \<open>TokenPaymentForwarder.sol\<close>: an \<open>address\<close> is 160 bits wide,
  \<open>uint256\<close> and \<open>bytes32\<close> are 256 bits wide, \<open>bytes\<close> is a byte string. A call that
  reverts is the left summand of a sum, carrying the revert message.
\<close>

type_synonym address = "160 word"
type_synonym uint256 = "256 word"
type_synonym bytes32 = "256 word"
type_synonym bytes = "8 word list"

text \<open>
  \<open>ForwardRequest\<close> is the tuple \<open>(address from, address to, uint256 value, uint256 gas,
  uint256 nonce, bytes data)\<close>; the fields carry the prefix \<open>req_\<close> because \<open>from\<close> and
  \<open>value\<close> are reserved words here.
\<close>

record ForwardRequest =
  req_from :: address
  req_to :: address
  req_value :: uint256
  req_gas :: uint256
  req_nonce :: uint256
  req_data :: bytes

record PaymentInfo =
  payment :: uint256
  paymentSignature :: bytes

subsection \<open>Signature verification\<close>

text \<open>
  The primitives that \<open>verify\<close> calls and that the repository does not define: the hash
  function, the typed-data wrapper \<open>_hashTypedDataV4\<close>, the constant \<open>_TYPEHASH\<close> and the
  signer recovery \<open>recover\<close>. They are parameters of the model. \<open>recover\<close> is a library
  call, so it may revert instead of returning an address.
\<close>

record primitives =
  keccak256 :: "bytes \<Rightarrow> bytes32"
  hashTypedDataV4 :: "bytes32 \<Rightarrow> bytes32"
  TYPEHASH :: bytes32
  recover :: "bytes32 \<Rightarrow> bytes \<Rightarrow> string + address"

text \<open>\<open>abi.encode\<close> of static values: each value is one 32-byte big-endian word.\<close>

definition to_bytes32 :: "uint256 \<Rightarrow> bytes" where
  "to_bytes32 w = map (\<lambda>i. ucast (drop_bit (8 * (31 - i)) w)) [0..<32]"

definition abi_encode :: "uint256 list \<Rightarrow> bytes" where
  "abi_encode ws = concat (map to_bytes32 ws)"

text \<open>
  The arguments of \<open>abi.encode\<close> in \<open>verify\<close>, in the order of the source:
  \<open>_TYPEHASH, req.from, req.to, req.value, req.gas, req.nonce, keccak256(req.data)\<close>.
\<close>

definition verify_words :: "primitives \<Rightarrow> ForwardRequest \<Rightarrow> uint256 list" where
  "verify_words P req =
     [TYPEHASH P, ucast (req_from req), ucast (req_to req), req_value req, req_gas req,
      req_nonce req, keccak256 P (req_data req)]"

definition digest :: "primitives \<Rightarrow> ForwardRequest \<Rightarrow> bytes32" where
  "digest P req = hashTypedDataV4 P (keccak256 P (abi_encode (verify_words P req)))"

text \<open>
  \<open>verify\<close>: the signer is recovered first; a revert of \<open>recover\<close> is not caught. Then
  \<open>_nonces[req.from] == req.nonce && signer == req.from\<close>.
\<close>

definition verify :: "primitives \<Rightarrow> (address \<Rightarrow> uint256) \<Rightarrow> ForwardRequest \<Rightarrow> bytes \<Rightarrow> string + bool" where
  "verify P nonces req signature =
     (case recover P (digest P req) signature of
        Inl e \<Rightarrow> Inl e
      | Inr signer \<Rightarrow> Inr (nonces (req_from req) = req_nonce req \<and> signer = req_from req))"

text \<open>
  The contract imports OpenZeppelin's \<open>MinimalForwarder\<close>, whose \<open>recover\<close> is
  \<open>ECDSA.recover\<close>. That library is outside the repository; what is modelled of it is its
  length check: a signature that is not 65 bytes long reverts with
  \<open>ECDSA: invalid signature length\<close>. What it does with a 65-byte signature (the range
  checks and the \<open>ecrecover\<close> precompile) stays a parameter.
\<close>

definition ECDSA_recover :: "(bytes32 \<Rightarrow> bytes \<Rightarrow> string + address) \<Rightarrow> bytes32 \<Rightarrow> bytes \<Rightarrow> string + address" where
  "ECDSA_recover recover65 hash signature =
     (if length signature = 65 then recover65 hash signature
      else Inl ''ECDSA: invalid signature length'')"

subsection \<open>Payment conditions\<close>

text \<open>
  The storage of \<open>TokenPaymentForwarder\<close> that \<open>verifyPayment\<close> reads, and the address of
  the contract itself (\<open>address(this)\<close>).
\<close>

record forwarder =
  paymentToken :: address
  minPayment :: uint256
  this :: address

text \<open>
  \<open>verifyPayment\<close>; \<open>allowance\<close> is the view function of the ERC-20 token at
  \<open>paymentToken\<close>, given the token's address, the owner and the spender.
\<close>

definition verifyPayment :: "forwarder \<Rightarrow> (address \<Rightarrow> address \<Rightarrow> address \<Rightarrow> uint256) \<Rightarrow> ForwardRequest \<Rightarrow> PaymentInfo \<Rightarrow> bool" where
  "verifyPayment c allowance req paymentInfo =
     (if payment paymentInfo < minPayment c then False
      else if allowance (paymentToken c) (req_from req) (this c) < payment paymentInfo then False
      else True)"

section \<open>Numbers of the relayer Lambda\<close>

text \<open>
  What \<open>index.js\<close> throws or receives as a rejection: an \<open>Error\<close> with its message,
  and the faults of the ethers library, a numeric fault with the name of the fault
  (\<open>underflow\<close>, \<open>overflow\<close>) and an invalid argument with its reason. \<open>SyntaxError\<close> is
  what \<open>JSON.parse\<close> throws.
\<close>

datatype error = Error string | NumericFault string | InvalidArgument string | SyntaxError

subsection \<open>JavaScript numbers\<close>

text \<open>
  A JavaScript number is an IEEE-754 double. A finite double is a rational, and every
  operation gives the double nearest to the exact result, ties going to the even
  significand. \<open>to_double\<close> is that rounding for magnitudes in the normal range, with 53
  significant bits: for \<open>2 ^ e \<le> \<bar>x\<bar> < 2 ^ (e + 1)\<close> the doubles around \<open>x\<close> are the
  multiples of \<open>2 ^ (e - 52)\<close>. For a gas limit and a gas price of at most 256 bits, all
  numbers met in \<open>calculatePayment\<close> are zero or of magnitude between \<open>10 ^ -18\<close> and
  \<open>2 ^ 530\<close>, far inside that range.
\<close>

definition exponent :: "rat \<Rightarrow> int" where
  "exponent x =
     (case quotient_of x of (p, q) \<Rightarrow>
        (let d = bitlen p - bitlen q in if 2 powi d \<le> x then d else d - 1))"

definition round_half_even :: "rat \<Rightarrow> int" where
  "round_half_even x =
     (let n = \<lfloor>x\<rfloor>; r = x - of_int n
      in if r < 1 / 2 then n else if 1 / 2 < r then n + 1 else if even n then n else n + 1)"

definition to_double :: "rat \<Rightarrow> rat" where
  "to_double x =
     (if x = 0 then 0
      else (let ulp = 2 powi (exponent \<bar>x\<bar> - 52) in of_int (round_half_even (x / ulp)) * ulp))"

text \<open>
  \<open>x.toFixed(6)\<close> followed by \<open>parseUnits(_, 6)\<close>, for \<open>x \<ge> 0\<close>: \<open>toFixed\<close> prints the
  integer \<open>n\<close> for which \<open>n / 10 ^ 6\<close> is nearest to \<open>x\<close>, the larger one of two, as a
  decimal with six places, and \<open>parseUnits\<close> reads \<open>n\<close> back. From \<open>10 ^ 21\<close> on,
  \<open>toFixed\<close> prints in exponent notation, which \<open>parseUnits\<close> refuses.
\<close>

definition toFixed6 :: "rat \<Rightarrow> int option" where
  "toFixed6 x = (if 10 ^ 21 \<le> x then None else Some \<lfloor>x * 10 ^ 6 + 1 / 2\<rfloor>)"

subsection \<open>Big numbers of the ethers library\<close>

text \<open>
  A \<open>BigNumber\<close> is an integer of any size. \<open>a.mul(other)\<close> first turns \<open>other\<close> into a
  \<open>BigNumber\<close>; for a JavaScript number, \<open>BigNumber.from\<close> throws the fault \<open>underflow\<close>
  when the number has a fractional part (\<open>value % 1\<close>) and \<open>overflow\<close> when it is not a
  safe integer. The library is outside the repository; this is the behaviour of its
  version 5, the one whose \<open>ethers.utils\<close> and \<open>ethers.providers\<close> the code uses.
\<close>

definition MAX_SAFE :: int where
  "MAX_SAFE = 9007199254740991"

definition BigNumber_from :: "rat \<Rightarrow> error + int" where
  "BigNumber_from v =
     (if of_int \<lfloor>v\<rfloor> \<noteq> v then Inl (NumericFault ''underflow'')
      else if of_int MAX_SAFE \<le> v \<or> v \<le> - of_int MAX_SAFE then Inl (NumericFault ''overflow'')
      else Inr \<lfloor>v\<rfloor>)"

definition BigNumber_mul :: "int \<Rightarrow> rat \<Rightarrow> error + int" where
  "BigNumber_mul a other =
     (case BigNumber_from other of Inl e \<Rightarrow> Inl e | Inr k \<Rightarrow> Inr (a * k))"

subsection \<open>The required payment\<close>

text \<open>
  \<open>calculatePayment\<close>: the gas cost in wei is an exact product of big numbers;
  \<open>formatEther\<close> prints it exactly as a decimal number of ether, \<open>parseFloat\<close> reads that
  as a double; the products with the rate \<open>3000\<close> and with the literal \<open>1.1\<close> are products
  of doubles. The result counts units of \<open>10 ^ -6\<close> USDT.
\<close>

definition calculatePayment :: "int \<Rightarrow> int \<Rightarrow> error + int" where
  "calculatePayment gasLimit gasPrice =
     (let ethToUsdRate = 3000;
          gasCost = gasLimit * gasPrice;
          ethCost = of_int gasCost / 10 ^ 18;
          usdCost = to_double (to_double ethCost * ethToUsdRate);
          totalUsdCost = to_double (usdCost * to_double (11 / 10))
      in case toFixed6 totalUsdCost of
           None \<Rightarrow> Inl (InvalidArgument ''invalid decimal value'')
         | Some units \<Rightarrow> Inr units)"

section \<open>The relayer Lambda\<close>

text \<open>
  \<open>index.js\<close> runs one \<open>await\<close> after the other. Each awaited call leaves the process
  (key service, RPC node, contracts, queue), so a run is modelled as the list of the calls
  it makes, in order, together with what it returns or throws; what each call answers is
  given by a record of responses. A rejected promise or a thrown error is the left summand.
\<close>

type_synonym txhash = string

text \<open>
  The parsed message body, as \<open>processMetaTransaction\<close> reads it: \<open>metaTx.from\<close>,
  \<open>.to\<close>, \<open>.value\<close>, \<open>.gas\<close>, \<open>.nonce\<close>, \<open>.data\<close>, \<open>.signature\<close>. The wire format
  also carries \<open>payment\<close>. The values are taken as well formed for their ABI types, so
  the conversions of the ethers library (\<open>BigNumber.from(metaTx.gas)\<close>, the ABI coder) do
  not throw.
\<close>

record metaTx =
  mtx_from :: address
  mtx_to :: address
  mtx_value :: uint256
  mtx_gas :: uint256
  mtx_nonce :: uint256
  mtx_data :: bytes
  mtx_signature :: bytes
  mtx_payment :: uint256

text \<open>The tuple \<open>[metaTx.from, metaTx.to, metaTx.value, metaTx.gas, metaTx.nonce, metaTx.data]\<close>.\<close>

definition request_of :: "metaTx \<Rightarrow> ForwardRequest" where
  "request_of metaTx =
     \<lparr>req_from = mtx_from metaTx, req_to = mtx_to metaTx, req_value = mtx_value metaTx,
      req_gas = mtx_gas metaTx, req_nonce = mtx_nonce metaTx, req_data = mtx_data metaTx\<rparr>"

text \<open>
  The object \<open>config\<close>. Its addresses and URL come from the environment; \<open>minPayment\<close> is
  \<open>parseUnits("1", 6)\<close> and \<open>gasBuffer\<close> is the JavaScript number \<open>1.1\<close>, a double.
\<close>

record config =
  usdtAddress :: address
  forwarderAddress :: address
  config_minPayment :: int
  gasBuffer :: rat
  rpcUrl :: string

definition config_of_env :: "address \<Rightarrow> address \<Rightarrow> string \<Rightarrow> config" where
  "config_of_env usdt fwd url =
     \<lparr>usdtAddress = usdt, forwarderAddress = fwd, config_minPayment = 1000000,
      gasBuffer = to_double (11 / 10), rpcUrl = url\<rparr>"

text \<open>
  The calls a run makes. \<open>Execute\<close> carries the request, the signature and the overrides
  \<open>gasLimit\<close> and \<open>gasPrice\<close>; \<open>TransferFrom\<close> carries the token, the sender, the
  recipient and the amount.
\<close>

datatype action =
    KmsDecrypt
  | Verify address ForwardRequest bytes
  | GetGasPrice
  | Allowance address address address
  | Execute address ForwardRequest bytes uint256 int
  | WaitTx txhash
  | TransferFrom address address address int
  | WaitPayment txhash
  | DeleteMessage string

text \<open>
  What the outside answers during the processing of one message. \<open>getRelayerKey\<close> is
  called twice (by \<open>processMetaTransaction\<close> and by \<open>verifyAllowance\<close>), hence the two
  answers of the key service.
\<close>

record io =
  kms_decrypt :: "error + address"
  forwarder_verify :: "ForwardRequest \<Rightarrow> bytes \<Rightarrow> error + bool"
  getGasPrice :: "error + int"
  kms_decrypt_again :: "error + address"
  usdt_allowance :: "address \<Rightarrow> address \<Rightarrow> error + int"
  forwarder_execute :: "ForwardRequest \<Rightarrow> bytes \<Rightarrow> uint256 \<Rightarrow> int \<Rightarrow> error + txhash"
  tx_wait :: "txhash \<Rightarrow> error + txhash"
  usdt_transferFrom :: "address \<Rightarrow> address \<Rightarrow> int \<Rightarrow> error + txhash"
  paymentTx_wait :: "txhash \<Rightarrow> error + unit"
  sqs_deleteMessage :: "string \<Rightarrow> error + unit"

type_synonym 'a run = "action list \<times> (error + 'a)"

definition call :: "action \<Rightarrow> error + 'a \<Rightarrow> 'a run" where
  "call a answer = ([a], answer)"

definition return :: "'a \<Rightarrow> 'a run" where
  "return x = ([], Inr x)"

definition throw :: "error \<Rightarrow> 'a run" where
  "throw e = ([], Inl e)"

text \<open>\<open>const x = await m; f(x)\<close>: a rejection of \<open>m\<close> ends the run.\<close>

definition await :: "'a run \<Rightarrow> ('a \<Rightarrow> 'b run) \<Rightarrow> 'b run" where
  "await m f =
     (case m of
        (l, Inl e) \<Rightarrow> (l, Inl e)
      | (l, Inr x) \<Rightarrow> (case f x of (l', r) \<Rightarrow> (l @ l', r)))"

definition verifyAllowance :: "config \<Rightarrow> io \<Rightarrow> address \<Rightarrow> int \<Rightarrow> bool run" where
  "verifyAllowance cfg io userAddress amount =
     await (call KmsDecrypt (kms_decrypt_again io)) (\<lambda>relayer.
     await (call (Allowance (usdtAddress cfg) userAddress relayer)
              (usdt_allowance io userAddress relayer)) (\<lambda>allowance.
     return (amount \<le> allowance)))"

record result =
  metaTxHash :: txhash
  paymentTxHash :: txhash
  usdtAmount :: int

text \<open>
  \<open>processMetaTransaction\<close>. The arguments of \<open>forwarderContract.execute\<close> are evaluated
  before the call is made, the last of them being the overrides object with
  \<open>gasPrice.mul(config.gasBuffer)\<close>: when that multiplication throws, nothing is sent.
\<close>

definition processMetaTransaction :: "config \<Rightarrow> io \<Rightarrow> metaTx \<Rightarrow> result run" where
  "processMetaTransaction cfg io metaTx =
     await (call KmsDecrypt (kms_decrypt io)) (\<lambda>relayer.
     await (call (Verify (forwarderAddress cfg) (request_of metaTx) (mtx_signature metaTx))
              (forwarder_verify io (request_of metaTx) (mtx_signature metaTx))) (\<lambda>valid.
     if \<not> valid then throw (Error ''Invalid signature'') else
     await (call GetGasPrice (getGasPrice io)) (\<lambda>gasPrice.
     await ([], calculatePayment (uint (mtx_gas metaTx)) gasPrice) (\<lambda>requiredPayment.
     await (verifyAllowance cfg io (mtx_from metaTx) requiredPayment) (\<lambda>hasAllowance.
     if \<not> hasAllowance then throw (Error ''Insufficient USDT allowance'') else
     await ([], BigNumber_mul gasPrice (gasBuffer cfg)) (\<lambda>buffered.
     await (call (Execute (forwarderAddress cfg) (request_of metaTx) (mtx_signature metaTx)
                    (mtx_gas metaTx) buffered)
              (forwarder_execute io (request_of metaTx) (mtx_signature metaTx)
                    (mtx_gas metaTx) buffered)) (\<lambda>tx.
     await (call (WaitTx tx) (tx_wait io tx)) (\<lambda>receipt.
     await (call (TransferFrom (usdtAddress cfg) (mtx_from metaTx) relayer requiredPayment)
              (usdt_transferFrom io (mtx_from metaTx) relayer requiredPayment)) (\<lambda>paymentTx.
     await (call (WaitPayment paymentTx) (paymentTx_wait io paymentTx)) (\<lambda>u.
     return \<lparr>metaTxHash = receipt, paymentTxHash = paymentTx,
             usdtAmount = requiredPayment\<rparr>))))))))))"







section \<open>Typed data of the signers\<close>

text \<open>
  The domain and the \<open>types\<close> object that each signer of the repository hands to
  \<open>_signTypedData\<close>: the client SDK (\<open>getDomainData\<close>, \<open>signRequest\<close>) and the contract
  test. A field is a pair of its name and its type.
\<close>

record EIP712Domain =
  name :: string
  version :: string
  chainId :: nat
  verifyingContract :: address

type_synonym typed_fields = "(string \<times> string) list"

record signer =
  signer_domain :: "nat \<Rightarrow> address \<Rightarrow> EIP712Domain"
  signer_types :: typed_fields

definition sdk_signer :: signer where
  "sdk_signer =
     \<lparr>signer_domain = (\<lambda>chain forwarder.
        \<lparr>name = ''TokenPaymentForwarder'', version = ''0.0.1'', chainId = chain,
         verifyingContract = forwarder\<rparr>),
      signer_types =
        [(''from'', ''address''), (''to'', ''address''), (''value'', ''uint256''),
         (''gas'', ''uint256''), (''nonce'', ''uint256''), (''data'', ''bytes''),
         (''payment'', ''uint256'')]\<rparr>"

definition test_signer :: signer where
  "test_signer =
     \<lparr>signer_domain = (\<lambda>chain forwarder.
        \<lparr>name = ''MinimalForwarder'', version = ''0.0.1'', chainId = chain,
         verifyingContract = forwarder\<rparr>),
      signer_types =
        [(''from'', ''address''), (''to'', ''address''), (''value'', ''uint256''),
         (''gas'', ''uint256''), (''nonce'', ''uint256''), (''data'', ''bytes'')]\<rparr>"

text \<open>
  The object that is signed: a value for each field name. The test builds it with the six
  fields of the request; \<open>createForwardRequest\<close> of the SDK adds \<open>payment\<close>.
\<close>

datatype typed_value = Address address | Uint256 uint256 | Bytes bytes

definition test_forwardRequest :: "ForwardRequest \<Rightarrow> (string \<times> typed_value) list" where
  "test_forwardRequest req =
     [(''from'', Address (req_from req)), (''to'', Address (req_to req)),
      (''value'', Uint256 (req_value req)), (''gas'', Uint256 (req_gas req)),
      (''nonce'', Uint256 (req_nonce req)), (''data'', Bytes (req_data req))]"

definition sdk_forwardRequest :: "ForwardRequest \<Rightarrow> uint256 \<Rightarrow> (string \<times> typed_value) list" where
  "sdk_forwardRequest req pay =
     [(''from'', Address (req_from req)), (''to'', Address (req_to req)),
      (''value'', Uint256 (req_value req)), (''gas'', Uint256 (req_gas req)),
      (''nonce'', Uint256 (req_nonce req)), (''data'', Bytes (req_data req)),
      (''payment'', Uint256 pay)]"

text \<open>
  The typed-data encoding of a struct (EIP-712 \<open>encodeData\<close>), which \<open>_signTypedData\<close>
  applies to the object: the fields in the order of \<open>types\<close>, an address and an integer as
  one word, \<open>bytes\<close> as the hash of its contents; a missing value or a value of another
  type is an error.
\<close>

definition encodeField :: "primitives \<Rightarrow> string \<Rightarrow> typed_value \<Rightarrow> uint256 option" where
  "encodeField P ty v =
     (case v of
        Address a \<Rightarrow> if ty = ''address'' then Some (ucast a) else None
      | Uint256 n \<Rightarrow> if ty = ''uint256'' then Some n else None
      | Bytes b \<Rightarrow> if ty = ''bytes'' then Some (keccak256 P b) else None)"

fun encodeData :: "primitives \<Rightarrow> typed_fields \<Rightarrow> (string \<times> typed_value) list \<Rightarrow> uint256 list option" where
  "encodeData P [] obj = Some []"
| "encodeData P ((n, ty) # rest) obj =
     (case map_of obj n of
        None \<Rightarrow> None
      | Some v \<Rightarrow>
          (case encodeField P ty v of
             None \<Rightarrow> None
           | Some w \<Rightarrow> map_option ((#) w) (encodeData P rest obj)))"

section \<open>Example values\<close>

text \<open>
  A request of the account with the private key 1 (address
  \<open>0x7E5F4552091A69125d5DfCb7b8C2659029395Bdf\<close>), with nonce 0 and gas limit 300000, and
  its signature under the domain \<open>{name: "MinimalForwarder", version: "0.0.1", chainId:
  31337, verifyingContract: 0xe7f1725E7734CE288F8367e1Bb143E90bb3F0512}\<close>. The
  primitives are given by their values at this request: the type hash of
  \<open>ForwardRequest\<close>, the hashes of the empty data and of the encoded struct, the digest,
  and the signer that the signature recovers to over that digest.
\<close>

definition example_request :: ForwardRequest where
  "example_request =
     \<lparr>req_from = 721457446580647751014191829380889690493307935711,
      req_to = 912823093544680850579175995568783282090442467040,
      req_value = 0, req_gas = 300000, req_nonce = 0, req_data = []\<rparr>"

definition example_signature :: bytes where
  "example_signature =
     [187, 80, 226, 216, 154, 78, 215, 6, 99, 208, 128, 101, 159, 224, 173, 75,
      155, 195, 224, 108, 23, 162, 39, 67, 57, 102, 203, 89, 206, 238, 2, 13,
      49, 222, 120, 41, 64, 157, 90, 176, 42, 252, 157, 247, 246, 241, 203, 190,
      169, 79, 160, 222, 55, 159, 235, 171, 178, 221, 82, 16, 220, 41, 251, 202,
      28]"

definition example_digest :: bytes32 where
  "example_digest = 4809124127483903979536510293452306963320002895954210907369027162155655162544"

definition example_primitives :: primitives where
  "example_primitives =
     \<lparr>keccak256 = (\<lambda>b. if b = []
         then 89477152217924674838424037953991966239322087453347756267410168184682657981552
         else 14832964664936038012957388381810279643338597715824892912895668901567576248029),
      hashTypedDataV4 = (\<lambda>h.
         if h = 14832964664936038012957388381810279643338597715824892912895668901567576248029
         then example_digest else 0),
      TYPEHASH = 100214319336290647902451889841956382186390922151320274778371666331435694128712,
      recover = ECDSA_recover (\<lambda>h s.
         if h = example_digest \<and> s = example_signature
         then Inr 721457446580647751014191829380889690493307935711
         else Inl ''ECDSA: invalid signature'')\<rparr>"

text \<open>
  The same request as a message of the queue, offering 1 USDT, under the shipped
  configuration; and the answers of the outside in three situations: every call succeeds,
  at a gas price of 1 gwei and with an allowance of 5 USDT; the forwarder finds the
  signature invalid; the allowance is only 0.5 USDT.
\<close>

definition example_config :: config where
  "example_config =
     config_of_env 546584486846459126461364135121053344201067465379
       1324161310598743833836268493538283093091898295570 ''rpc''"

definition example_metaTx :: metaTx where
  "example_metaTx =
     \<lparr>mtx_from = 721457446580647751014191829380889690493307935711,
      mtx_to = 912823093544680850579175995568783282090442467040,
      mtx_value = 0, mtx_gas = 300000, mtx_nonce = 0, mtx_data = [],
      mtx_signature = example_signature, mtx_payment = 1000000\<rparr>"

definition example_relayer :: address where
  "example_relayer = 642829559307850963015472508762062935916233390536"

definition io_accepts :: io where
  "io_accepts =
     \<lparr>kms_decrypt = Inr example_relayer,
      forwarder_verify = (\<lambda>req sg. Inr True),
      getGasPrice = Inr 1000000000,
      kms_decrypt_again = Inr example_relayer,
      usdt_allowance = (\<lambda>owner spender. Inr 5000000),
      forwarder_execute = (\<lambda>req sg gasLimit gasPrice. Inr ''0xe1''),
      tx_wait = (\<lambda>tx. Inr tx),
      usdt_transferFrom = (\<lambda>sender recipient amount. Inr ''0xf1''),
      paymentTx_wait = (\<lambda>tx. Inr ()),
      sqs_deleteMessage = (\<lambda>h. Inr ())\<rparr>"




section \<open>Properties of the forwarder contract\<close>

lemma to_bytes32_length: "length (to_bytes32 w) = 32"
  by (simp add: to_bytes32_def)

lemma abi_encode_not_empty: "abi_encode (w # ws) \<noteq> []"
proof
  assume "abi_encode (w # ws) = []"
  then have "length (to_bytes32 w) = 0"
    by (simp add: abi_encode_def)
  then show False
    by (simp add: to_bytes32_length)
qed

text \<open>The digest of the example request and what its signature recovers to.\<close>

lemma example_digest: "digest example_primitives example_request = example_digest"
  by (simp add: digest_def verify_words_def example_primitives_def abi_encode_not_empty
      example_request_def)

lemma example_recover:
  "recover example_primitives (digest example_primitives example_request) example_signature
     = Inr (req_from example_request)"
  unfolding example_digest
  by (simp add: example_primitives_def ECDSA_recover_def example_signature_def
      example_request_def)

text \<open>
  C1, as the code has it: \<open>verify\<close> returns true exactly when the identity recovered
  from the signature over the domain-bound digest is \<open>req.from\<close> and \<open>req.nonce\<close> is the
  nonce stored for \<open>req.from\<close>. So a request whose nonce differs from the stored one is
  never accepted: \<open>verify\<close> does not return true for it; it returns false whenever the
  signature recovers to an identity, whichever it is, and it raises when the recovery of
  the signer raises.
\<close>

theorem verify_true_iff:
  "(verify P nonces req sg = Inr True \<longleftrightarrow>
      recover P (digest P req) sg = Inr (req_from req) \<and> req_nonce req = nonces (req_from req))
   \<and> (req_nonce req \<noteq> nonces (req_from req) \<longrightarrow>
        verify P nonces req sg \<noteq> Inr True
      \<and> (\<forall>signer. recover P (digest P req) sg = Inr signer \<longrightarrow>
             verify P nonces req sg = Inr False)
      \<and> (\<forall>e. recover P (digest P req) sg = Inl e \<longrightarrow> verify P nonces req sg = Inl e))"
  by (auto simp: verify_def split: sum.splits)

text \<open>
  The example request with its own valid signature, once the nonce of the account has
  moved from 0 to 1: \<open>verify\<close> returns false.
\<close>

theorem verify_true_iff_witness:
  "req_nonce example_request \<noteq> (\<lambda>a. 1 :: uint256) (req_from example_request)
   \<and> recover example_primitives (digest example_primitives example_request) example_signature
       = Inr (req_from example_request)
   \<and> verify example_primitives (\<lambda>a. 0) example_request example_signature = Inr True
   \<and> verify example_primitives (\<lambda>a. 1) example_request example_signature = Inr False"
proof -
  have stale: "req_nonce example_request \<noteq> (\<lambda>a. 1 :: uint256) (req_from example_request)"
    by (simp add: example_request_def)
  have fresh: "req_nonce example_request = (\<lambda>a. 0 :: uint256) (req_from example_request)"
    by (simp add: example_request_def)
  from verify_true_iff [of example_primitives "\<lambda>a. 1" example_request example_signature]
    verify_true_iff [of example_primitives "\<lambda>a. 0" example_request example_signature]
    stale fresh example_recover
  show ?thesis
    by blast
qed

text \<open>
  C1, as the specification states it, fails: with a nonce that no longer matches,
  \<open>verify\<close> does not return false for every signature. For the empty signature it raises.
\<close>

theorem verify_stale_nonce_raises:
  "req_nonce example_request \<noteq> (\<lambda>a. 1 :: uint256) (req_from example_request)
   \<and> verify example_primitives (\<lambda>a. 1) example_request []
       = Inl ''ECDSA: invalid signature length''"
  by (simp add: verify_def example_primitives_def ECDSA_recover_def example_request_def)

text \<open>
  C10, as the code has it: \<open>verify\<close> has no handler of its own. It returns false, without
  raising, when the signature recovers to an identity other than \<open>req.from\<close> (a digest
  mismatch) or when the nonce differs; it raises exactly when the recovery of the signer
  raises, with the same error.
\<close>

theorem verify_raises_iff_recover_raises:
  "(verify P nonces req sg = Inl e \<longleftrightarrow> recover P (digest P req) sg = Inl e)
   \<and> (recover P (digest P req) sg = Inr signer \<and>
        (signer \<noteq> req_from req \<or> nonces (req_from req) \<noteq> req_nonce req) \<longrightarrow>
        verify P nonces req sg = Inr False)"
  by (auto simp: verify_def split: sum.splits)

theorem verify_raises_iff_recover_raises_witness:
  "recover \<lparr>keccak256 = \<lambda>b. 0, hashTypedDataV4 = \<lambda>h. h, TYPEHASH = 0,
               recover = ECDSA_recover (\<lambda>h s. Inr 9)\<rparr>
        (digest \<lparr>keccak256 = \<lambda>b. 0, hashTypedDataV4 = \<lambda>h. h, TYPEHASH = 0,
               recover = ECDSA_recover (\<lambda>h s. Inr 9)\<rparr>
           \<lparr>req_from = 3, req_to = 4, req_value = 0, req_gas = 500000, req_nonce = 0, req_data = []\<rparr>)
        (replicate 65 1) = Inr 9
   \<and> (9 :: address) \<noteq> 3
   \<and> verify \<lparr>keccak256 = \<lambda>b. 0, hashTypedDataV4 = \<lambda>h. h, TYPEHASH = 0,
               recover = ECDSA_recover (\<lambda>h s. Inr 9)\<rparr>
        (\<lambda>a. 0)
        \<lparr>req_from = 3, req_to = 4, req_value = 0, req_gas = 500000, req_nonce = 0, req_data = []\<rparr>
        (replicate 65 1) = Inr False"
  using verify_raises_iff_recover_raises [of
      "\<lparr>keccak256 = \<lambda>b. 0, hashTypedDataV4 = \<lambda>h. h, TYPEHASH = 0,
         recover = ECDSA_recover (\<lambda>h s. Inr 9)\<rparr>"
      "\<lambda>a. 0"
      "\<lparr>req_from = 3, req_to = 4, req_value = 0, req_gas = 500000, req_nonce = 0, req_data = []\<rparr>"
      "replicate 65 1" _ 9]
  by (simp add: ECDSA_recover_def)

text \<open>
  C10, as the specification states it, fails: with the length check of \<open>ECDSA.recover\<close>,
  the empty signature makes \<open>verify\<close> raise instead of returning false.
\<close>

theorem verify_wrong_length_raises:
  "verify \<lparr>keccak256 = \<lambda>b. 0, hashTypedDataV4 = \<lambda>h. h, TYPEHASH = 0,
            recover = ECDSA_recover (\<lambda>h s. Inr 3)\<rparr>
     (\<lambda>a. 0)
     \<lparr>req_from = 3, req_to = 4, req_value = 0, req_gas = 500000, req_nonce = 0, req_data = []\<rparr>
     [] = Inl ''ECDSA: invalid signature length''"
  by (simp add: verify_def ECDSA_recover_def)

text \<open>
  C2: \<open>verifyPayment\<close> accepts exactly when the payment is at least \<open>minPayment\<close> and the
  allowance of the sender towards the forwarder covers the payment. So every payment below
  the floor is rejected; in particular zero and \<open>minPayment - 1\<close> are rejected whenever the
  floor is positive.
\<close>

theorem verifyPayment_iff:
  "(verifyPayment c allowance req p \<longleftrightarrow>
      minPayment c \<le> payment p \<and> payment p \<le> allowance (paymentToken c) (req_from req) (this c))
   \<and> (payment p < minPayment c \<longrightarrow> \<not> verifyPayment c allowance req p)
   \<and> (0 < minPayment c \<longrightarrow>
        \<not> verifyPayment c allowance req (p\<lparr>payment := 0\<rparr>)
      \<and> \<not> verifyPayment c allowance req (p\<lparr>payment := minPayment c - 1\<rparr>))"
proof -
  have below: "minPayment c - 1 < minPayment c" if "0 < minPayment c"
    using that by (simp add: word_less_nat_alt unat_minus_one word_gt_0 unat_gt_0)
  show ?thesis
    using below by (auto simp: verifyPayment_def not_less)
qed

theorem verifyPayment_iff_witness:
  "(999999 :: uint256) < 1000000 \<and> (0 :: uint256) < 1000000
   \<and> \<not> verifyPayment \<lparr>paymentToken = 1, minPayment = 1000000, this = 2\<rparr> (\<lambda>t owner spender. 5000000)
        \<lparr>req_from = 3, req_to = 4, req_value = 0, req_gas = 500000, req_nonce = 0, req_data = []\<rparr>
        \<lparr>payment = 999999, paymentSignature = []\<rparr>
   \<and> \<not> verifyPayment \<lparr>paymentToken = 1, minPayment = 1000000, this = 2\<rparr> (\<lambda>t owner spender. 5000000)
        \<lparr>req_from = 3, req_to = 4, req_value = 0, req_gas = 500000, req_nonce = 0, req_data = []\<rparr>
        \<lparr>payment = 0, paymentSignature = []\<rparr>"
  using verifyPayment_iff [of "\<lparr>paymentToken = 1, minPayment = 1000000, this = 2\<rparr>"
      "\<lambda>t owner spender. 5000000"
      "\<lparr>req_from = 3, req_to = 4, req_value = 0, req_gas = 500000, req_nonce = 0, req_data = []\<rparr>"
      "\<lparr>payment = 999999, paymentSignature = []\<rparr>"]
  by simp

section \<open>Properties of the typed data\<close>

text \<open>
  C6, as the code has it: the typed data that the contract test signs has exactly the
  fields from, to, value, gas, nonce, data, in this order; its encoding is word for word
  what \<open>verify\<close> passes to \<open>abi.encode\<close> after the type hash (data as its hash); and its
  domain is named \<open>MinimalForwarder\<close>, with version \<open>0.0.1\<close>, the chain id and the
  address of the forwarder.
\<close>

theorem test_signer_matches_verify:
  "map fst (signer_types test_signer) = [''from'', ''to'', ''value'', ''gas'', ''nonce'', ''data'']
   \<and> encodeData P (signer_types test_signer) (test_forwardRequest req) = Some (tl (verify_words P req))
   \<and> signer_domain test_signer chain forwarder =
       \<lparr>name = ''MinimalForwarder'', version = ''0.0.1'', chainId = chain,
        verifyingContract = forwarder\<rparr>"
  by (simp add: test_signer_def test_forwardRequest_def verify_words_def encodeField_def)

text \<open>
  C6, as the specification states it, fails: the signers do not all use the six fields
  under the domain name \<open>TokenPaymentForwarder\<close>. The SDK signs a seventh field,
  \<open>payment\<close>, and the test signs under the name \<open>MinimalForwarder\<close>.
\<close>

theorem signers_disagree:
  "signer_types sdk_signer \<noteq>
        [(''from'', ''address''), (''to'', ''address''), (''value'', ''uint256''),
         (''gas'', ''uint256''), (''nonce'', ''uint256''), (''data'', ''bytes'')]
   \<and> name (signer_domain test_signer 31337 32) \<noteq> ''TokenPaymentForwarder''
   \<and> signer_types sdk_signer \<noteq> signer_types test_signer
   \<and> signer_domain sdk_signer 31337 32 \<noteq> signer_domain test_signer 31337 32"
  by (simp add: sdk_signer_def test_signer_def)

text \<open>
  The SDK's typed data does not encode to what \<open>verify\<close> hashes: it has one word more,
  for \<open>payment\<close>.
\<close>

lemma sdk_signer_differs_from_verify:
  "encodeData P (signer_types sdk_signer) (sdk_forwardRequest req pay) \<noteq> Some (tl (verify_words P req))"
  by (simp add: sdk_signer_def sdk_forwardRequest_def verify_words_def encodeField_def)

section \<open>Properties of the numbers\<close>

subsection \<open>Rounding to a double\<close>






text \<open>The literal \<open>1.1\<close> as a double, and what \<open>BigNumber.from\<close> makes of it.\<close>

lemma to_double_11_10: "to_double (11 / 10) = 2476979795053773 / 2251799813685248"
  by code_simp

lemma BigNumber_from_gasBuffer:
  "BigNumber_from (to_double (11 / 10)) = Inl (NumericFault ''underflow'')"
  unfolding to_double_11_10 by code_simp

lemma BigNumber_mul_literal:
  "BigNumber_mul gasPrice (to_double (11 / 10)) = Inl (NumericFault ''underflow'')"
  by (simp add: BigNumber_mul_def BigNumber_from_gasBuffer)

lemma BigNumber_mul_gasBuffer:
  "BigNumber_mul gasPrice (gasBuffer (config_of_env usdt fwd url)) = Inl (NumericFault ''underflow'')"
  by (simp add: config_of_env_def BigNumber_mul_literal)

subsection \<open>The value of \<open>calculatePayment\<close>\<close>




text \<open>Values of \<open>calculatePayment\<close>.\<close>

lemma calculatePayment_300000_gwei: "calculatePayment 300000 1000000000 = Inr 990000"
  by code_simp







section \<open>Runs of the relayer Lambda\<close>

lemma in_await:
  "x \<in> set (fst (await m f)) \<longleftrightarrow>
     x \<in> set (fst m) \<or> (\<exists>v. snd m = Inr v \<and> x \<in> set (fst (f v)))"
  by (cases m; cases "snd m") (auto simp: await_def split: prod.splits)

lemma await_returns:
  "snd (await m f) = Inr r \<longleftrightarrow> (\<exists>v. snd m = Inr v \<and> snd (f v) = Inr r)"
  by (cases m; cases "snd m") (auto simp: await_def split: prod.splits)

lemmas trace_simps = in_await await_returns call_def return_def throw_def

subsection \<open>Runs of \<open>processMetaTransaction\<close>\<close>




text \<open>
  With the \<open>config\<close> of the source, the multiplication by \<open>gasBuffer\<close> throws. So a run
  never returns, and it makes no call beyond the key service, \<open>verify\<close>, the gas price
  and the allowance.
\<close>

lemma shipped_never_returns:
  "snd (processMetaTransaction (config_of_env usdt fwd url) io m) \<noteq> Inr r"
  unfolding processMetaTransaction_def verifyAllowance_def
  by (auto simp: trace_simps BigNumber_mul_gasBuffer split: if_splits)

lemma shipped_calls:
  "x \<in> set (fst (processMetaTransaction (config_of_env usdt fwd url) io m)) \<Longrightarrow>
     x = KmsDecrypt \<or> x = GetGasPrice
     \<or> x = Verify fwd (request_of m) (mtx_signature m)
     \<or> (\<exists>relayer. x = Allowance usdt (mtx_from m) relayer)"
  unfolding processMetaTransaction_def verifyAllowance_def
  by (auto simp: trace_simps BigNumber_mul_literal config_of_env_def split: if_splits)

subsection \<open>What the handler does with one message and with a batch\<close>







subsection \<open>Example runs\<close>

lemma example_price:
  "calculatePayment (uint (mtx_gas example_metaTx)) 1000000000 = Inr 990000"
  by (simp add: example_metaTx_def calculatePayment_300000_gwei)

lemma example_accepts:
  "processMetaTransaction example_config io_accepts example_metaTx =
     ([KmsDecrypt,
       Verify (forwarderAddress example_config) (request_of example_metaTx) example_signature,
       GetGasPrice, KmsDecrypt,
       Allowance (usdtAddress example_config) (mtx_from example_metaTx) example_relayer],
      Inl (NumericFault ''underflow''))"
proof -
  have m: "BigNumber_mul 1000000000 (gasBuffer example_config) = Inl (NumericFault ''underflow'')"
    unfolding example_config_def by (rule BigNumber_mul_gasBuffer)
  have s: "mtx_signature example_metaTx = example_signature"
    by (simp add: example_metaTx_def)
  show ?thesis
    unfolding processMetaTransaction_def verifyAllowance_def
    by (simp add: io_accepts_def example_price m s await_def call_def return_def throw_def)
qed

subsection \<open>Rejected requests\<close>




subsection \<open>The fee\<close>

text \<open>
  C5 does not hold of the code. \<open>processMetaTransaction\<close> is written to take from
  \<open>metaTx.from\<close>, after the execution, the amount that \<open>calculatePayment\<close> gives, but it
  never gets there: building the arguments of \<open>execute\<close> it multiplies the gas price by
  \<open>config.gasBuffer\<close>, the number 1.1, which throws. For the example message, whose
  required payment is 990000 units and whose sender has allowed 5000000, the run ends
  with that fault after the allowance check; and no run, whatever the outside answers,
  sends \<open>execute\<close>, issues a \<open>transferFrom\<close> or returns.
\<close>

theorem fee_is_never_collected:
  "calculatePayment (uint (mtx_gas example_metaTx)) 1000000000 = Inr 990000
   \<and> processMetaTransaction example_config io_accepts example_metaTx =
       ([KmsDecrypt,
         Verify (forwarderAddress example_config) (request_of example_metaTx) example_signature,
         GetGasPrice, KmsDecrypt,
         Allowance (usdtAddress example_config) (mtx_from example_metaTx) example_relayer],
        Inl (NumericFault ''underflow''))
   \<and> TransferFrom t s r a \<notin> set (fst (processMetaTransaction (config_of_env usdt fwd url) io m))
   \<and> Execute f rq sg g gp \<notin> set (fst (processMetaTransaction (config_of_env usdt fwd url) io m))
   \<and> snd (processMetaTransaction (config_of_env usdt fwd url) io m) \<noteq> Inr res"
proof -
  have t: "TransferFrom t s r a \<notin> set (fst (processMetaTransaction (config_of_env usdt fwd url) io m))"
    using shipped_calls [of "TransferFrom t s r a" usdt fwd url io m] by auto
  have e: "Execute f rq sg g gp \<notin> set (fst (processMetaTransaction (config_of_env usdt fwd url) io m))"
    using shipped_calls [of "Execute f rq sg g gp" usdt fwd url io m] by auto
  show ?thesis
    by (rule conjI [OF example_price conjI [OF example_accepts conjI [OF t conjI [OF e shipped_never_returns]]]])
qed

end
